theory Spec2Isabelle
  imports Main "HOL-Library.Word"
begin

section \<open>AdAuctionFHE: data model\<close>

text \<open>
  The contract \<^verbatim>\<open>AdAuctionFHE\<close> is embedded with explicit state passing. A Solidity
  \<^verbatim>\<open>mapping(K => V)\<close> is a total function (every key holds the zero value until
  written), \<^verbatim>\<open>uint256\<close> is a natural number with the checked arithmetic of
  Solidity 0.8 written out, a dynamic storage array is a list, and every \<^verbatim>\<open>revert\<close>
  and every panic is a value of the type \<open>error\<close>.
\<close>

type_synonym address = nat
type_synonym uint256 = nat
type_synonym bytes = "8 word list"

text \<open>
  Modelled from the spec: the encrypted-integer capability of the FHE library, which is
  not part of the contract's source. An \<^verbatim>\<open>euint32\<close> is an opaque ciphertext handle
  that exports as a 32-byte commitment token (\<^verbatim>\<open>toBytes32\<close>); an \<^verbatim>\<open>ebool\<close> is
  the result of an encrypted comparison, whose outcome the contract reads with
  \<^verbatim>\<open>cleartext()\<close>.
\<close>

datatype euint32 = Handle (toBytes32: nat)

datatype ebool = Ebool (cleartext: bool)

text \<open>
  Modelled from the spec: \<^verbatim>\<open>keccak256(abi.encode(cts, address(this)))\<close> as a
  collision-free hash, a free constructor over the encoded data. \<open>Zero32\<close> is the zero
  value of \<^verbatim>\<open>bytes32\<close>, which a storage slot holds before it is written.
\<close>

datatype bytes32 = Zero32 | Keccak256 "nat list" address

record Bid =
  encryptedBidAmount :: euint32
  encryptedAdQualityScore :: euint32
  bidder :: address

record AuctionBatch =
  batchId :: uint256
  isOpen :: bool
  closeTimestamp :: uint256
  bids :: "Bid list"

text \<open>The field \<^verbatim>\<open>batchId\<close> of \<^verbatim>\<open>DecryptionContext\<close> is named \<open>ctxBatchId\<close> here.\<close>

record DecryptionContext =
  ctxBatchId :: uint256
  stateHash :: bytes32
  processed :: bool

record contract =
  owner :: address
  providers :: "address \<Rightarrow> bool"
  paused :: bool
  cooldownSeconds :: uint256
  lastSubmissionTime :: "address \<Rightarrow> uint256"
  lastDecryptionRequestTime :: "address \<Rightarrow> uint256"
  batches :: "uint256 \<Rightarrow> AuctionBatch"
  decryptionContexts :: "uint256 \<Rightarrow> DecryptionContext"
  currentBatchId :: uint256

definition MAX_BIDS_PER_BATCH :: nat where
  "MAX_BIDS_PER_BATCH = 100"

text \<open>
  The events of the contract, and one more entry of the effect log: the external call
  \<^verbatim>\<open>FHE.requestDecryption(cts, ...)\<close>, recorded with the commitment tokens it hands
  to the decryption oracle. The event \<^verbatim>\<open>BatchClosed\<close> is named \<open>BatchClosedEvent\<close>,
  since the error of the same name keeps it.
\<close>

datatype event =
    OwnershipTransferred address address
  | ProviderAdded address
  | ProviderRemoved address
  | ContractPaused address
  | ContractUnpaused address
  | CooldownSecondsUpdated uint256 uint256
  | BatchOpened uint256 uint256
  | BatchClosedEvent uint256
  | BidSubmitted address uint256
  | DecryptionRequested uint256 uint256
  | AuctionSettled uint256 uint256 address uint256
  | FHE_requestDecryption "nat list"

text \<open>
  The custom errors of the contract. \<open>Panic 17\<close> (0x11) is the arithmetic overflow of
  checked \<^verbatim>\<open>uint256\<close> arithmetic, \<open>Panic 50\<close> (0x32) an array index out of bounds,
  \<open>Revert\<close> a revert without data (a failed \<^verbatim>\<open>abi.decode\<close> or slice).
\<close>

datatype error =
    NotOwner
  | NotProvider
  | Paused
  | CooldownActive
  | BatchClosed
  | BatchFull
  | InvalidBatch
  | InvalidStateHash
  | ReplayDetected
  | InvalidProof
  | NoBids
  | NotEnoughBids
  | Panic nat
  | Revert

text \<open>
  What a call sees of its environment: the transaction (\<^verbatim>\<open>msg.sender\<close>,
  \<^verbatim>\<open>block.timestamp\<close>, \<^verbatim>\<open>address(this)\<close>) and the external FHE capability.
  Modelled from the spec: \<open>plaintext\<close> is the value hidden under each handle (known to
  the coprocessor only), \<open>oracleRequestId\<close> is the request id that
  \<^verbatim>\<open>FHE.requestDecryption\<close> returns in this call, and \<open>signaturesValid\<close> is the
  oracle's proof verification behind \<^verbatim>\<open>FHE.checkSignatures\<close>.
\<close>

record env =
  msg_sender :: address
  block_timestamp :: uint256
  this_address :: address
  plaintext :: "euint32 \<Rightarrow> 32 word"
  oracleRequestId :: uint256
  signaturesValid :: "uint256 \<Rightarrow> bytes \<Rightarrow> bytes \<Rightarrow> bool"

type_synonym result = "error + contract \<times> event list"

section \<open>The external capabilities\<close>

text \<open>
  Modelled from the spec: \<open>greaterOrEqual(a, b)\<close> is the encrypted comparison of the two
  hidden values, and \<open>select(a, b, cond)\<close> keeps \<open>a\<close> if \<open>cond\<close> holds and adopts \<open>b\<close>
  otherwise.
\<close>

definition FHE_ge :: "env \<Rightarrow> euint32 \<Rightarrow> euint32 \<Rightarrow> ebool" where
  "FHE_ge e a b = Ebool (plaintext e b \<le> plaintext e a)"

definition FHE_select :: "euint32 \<Rightarrow> euint32 \<Rightarrow> ebool \<Rightarrow> euint32" where
  "FHE_select a b c = (if cleartext c then a else b)"

text \<open>Checked addition of \<^verbatim>\<open>uint256\<close> (Solidity 0.8): overflow panics.\<close>

definition checked_add :: "uint256 \<Rightarrow> uint256 \<Rightarrow> error + uint256" where
  "checked_add a b = (if a + b < 2 ^ 256 then Inr (a + b) else Inl (Panic 17))"

text \<open>
  \<^verbatim>\<open>abi.decode(cleartexts[a:b], (uint32))\<close>: the slice reverts when it leaves the
  byte array; the decoder reads one 32-byte big-endian word and reverts when the word is
  shorter than 32 bytes or its value does not fit 32 bits.
\<close>

definition slice :: "bytes \<Rightarrow> nat \<Rightarrow> nat \<Rightarrow> error + bytes" where
  "slice bs a b = (if a \<le> b \<and> b \<le> length bs then Inr (take (b - a) (drop a bs)) else Inl Revert)"

definition be_uint :: "bytes \<Rightarrow> nat" where
  "be_uint bs = foldl (\<lambda>acc b. acc * 256 + unat b) 0 bs"

definition abi_decode_uint32 :: "bytes \<Rightarrow> error + uint256" where
  "abi_decode_uint32 w =
     (if length w < 32 then Inl Revert
      else if be_uint (take 32 w) < 2 ^ 32 then Inr (be_uint (take 32 w))
      else Inl Revert)"

definition decode_at :: "bytes \<Rightarrow> nat \<Rightarrow> nat \<Rightarrow> error + uint256" where
  "decode_at cleartexts a b =
     (case slice cleartexts a b of Inl e \<Rightarrow> Inl e | Inr w \<Rightarrow> abi_decode_uint32 w)"

section \<open>The contract's functions\<close>

definition hashCiphertexts :: "env \<Rightarrow> nat list \<Rightarrow> bytes32" where
  "hashCiphertexts e cts = Keccak256 cts (this_address e)"

definition emptyBatch :: AuctionBatch where
  "emptyBatch = \<lparr>batchId = 0, isOpen = False, closeTimestamp = 0, bids = []\<rparr>"

definition emptyContext :: DecryptionContext where
  "emptyContext = \<lparr>ctxBatchId = 0, stateHash = Zero32, processed = False\<rparr>"

text \<open>The storage of a contract before its constructor runs: every slot is zero.\<close>

definition zeroStorage :: contract where
  "zeroStorage =
     \<lparr>owner = 0, providers = (\<lambda>_. False), paused = False, cooldownSeconds = 0,
      lastSubmissionTime = (\<lambda>_. 0), lastDecryptionRequestTime = (\<lambda>_. 0),
      batches = (\<lambda>_. emptyBatch), decryptionContexts = (\<lambda>_. emptyContext),
      currentBatchId = 0\<rparr>"

text \<open>\<^verbatim>\<open>_openNewBatch\<close>: \<^verbatim>\<open>currentBatchId++\<close> is checked.\<close>

definition openNewBatch :: "uint256 \<Rightarrow> contract \<Rightarrow> result" where
  "openNewBatch ts s =
     (case checked_add (currentBatchId s) 1 of
        Inl e \<Rightarrow> Inl e
      | Inr next \<Rightarrow>
          Inr (s\<lparr>currentBatchId := next,
                 batches := (batches s)(currentBatchId s :=
                   \<lparr>batchId = currentBatchId s, isOpen = True, closeTimestamp = ts, bids = []\<rparr>)\<rparr>,
               [BatchOpened (currentBatchId s) ts]))"

definition constructor :: "env \<Rightarrow> result" where
  "constructor e =
     (let s = zeroStorage\<lparr>owner := msg_sender e,
                            providers := (providers zeroStorage)(msg_sender e := True),
                            cooldownSeconds := 30,
                            currentBatchId := 1\<rparr>
      in case checked_add (block_timestamp e) 86400 of
           Inl err \<Rightarrow> Inl err
         | Inr ts \<Rightarrow> openNewBatch ts s)"

definition transferOwnership :: "env \<Rightarrow> address \<Rightarrow> contract \<Rightarrow> result" where
  "transferOwnership e newOwner s =
     (if msg_sender e \<noteq> owner s then Inl NotOwner
      else Inr (s\<lparr>owner := newOwner\<rparr>, [OwnershipTransferred (owner s) newOwner]))"

definition addProvider :: "env \<Rightarrow> address \<Rightarrow> contract \<Rightarrow> result" where
  "addProvider e provider s =
     (if msg_sender e \<noteq> owner s then Inl NotOwner
      else Inr (s\<lparr>providers := (providers s)(provider := True)\<rparr>, [ProviderAdded provider]))"

definition removeProvider :: "env \<Rightarrow> address \<Rightarrow> contract \<Rightarrow> result" where
  "removeProvider e provider s =
     (if msg_sender e \<noteq> owner s then Inl NotOwner
      else Inr (s\<lparr>providers := (providers s)(provider := False)\<rparr>, [ProviderRemoved provider]))"

definition setPaused :: "env \<Rightarrow> bool \<Rightarrow> contract \<Rightarrow> result" where
  "setPaused e p s =
     (if msg_sender e \<noteq> owner s then Inl NotOwner
      else if p then Inr (s\<lparr>paused := True\<rparr>, [ContractPaused (msg_sender e)])
      else Inr (s\<lparr>paused := False\<rparr>, [ContractUnpaused (msg_sender e)]))"

definition setCooldownSeconds :: "env \<Rightarrow> uint256 \<Rightarrow> contract \<Rightarrow> result" where
  "setCooldownSeconds e c s =
     (if msg_sender e \<noteq> owner s then Inl NotOwner
      else Inr (s\<lparr>cooldownSeconds := c\<rparr>, [CooldownSecondsUpdated (cooldownSeconds s) c]))"

definition openBatch :: "env \<Rightarrow> uint256 \<Rightarrow> contract \<Rightarrow> result" where
  "openBatch e ts s =
     (if msg_sender e \<noteq> owner s then Inl NotOwner
      else if paused s then Inl Paused
      else openNewBatch ts s)"

definition closeBatch :: "env \<Rightarrow> uint256 \<Rightarrow> contract \<Rightarrow> result" where
  "closeBatch e b s =
     (if msg_sender e \<noteq> owner s then Inl NotOwner
      else if paused s then Inl Paused
      else if currentBatchId s \<le> b \<or> \<not> isOpen (batches s b) then Inl InvalidBatch
      else Inr (s\<lparr>batches := (batches s)(b := (batches s b)\<lparr>isOpen := False\<rparr>)\<rparr>,
                [BatchClosedEvent b]))"

definition submitBid :: "env \<Rightarrow> uint256 \<Rightarrow> euint32 \<Rightarrow> euint32 \<Rightarrow> contract \<Rightarrow> result" where
  "submitBid e b amount quality s =
     (if \<not> providers s (msg_sender e) then Inl NotProvider
      else if paused s then Inl Paused
      else case checked_add (lastSubmissionTime s (msg_sender e)) (cooldownSeconds s) of
        Inl err \<Rightarrow> Inl err
      | Inr ready \<Rightarrow>
          if block_timestamp e < ready then Inl CooldownActive
          else if currentBatchId s \<le> b \<or> \<not> isOpen (batches s b) then Inl BatchClosed
          else if MAX_BIDS_PER_BATCH \<le> length (bids (batches s b)) then Inl BatchFull
          else Inr (s\<lparr>lastSubmissionTime := (lastSubmissionTime s)(msg_sender e := block_timestamp e),
                       batches := (batches s)(b := (batches s b)\<lparr>bids := bids (batches s b) @
                         [\<lparr>encryptedBidAmount = amount, encryptedAdQualityScore = quality,
                           bidder = msg_sender e\<rparr>]\<rparr>)\<rparr>,
                    [BidSubmitted (msg_sender e) b]))"

text \<open>
  The loop of \<^verbatim>\<open>requestAuctionSettlement\<close> over the bids at index 2 and above, in
  index order. The loop state is (\<^verbatim>\<open>encryptedHighestBidAmount\<close>,
  \<^verbatim>\<open>encryptedSecondHighestBidAmount\<close>, \<^verbatim>\<open>highestBidder\<close>, \<^verbatim>\<open>secondHighestBidder\<close>).
\<close>

type_synonym tally = "euint32 \<times> euint32 \<times> address \<times> address"

fun tournament_loop :: "env \<Rightarrow> tally \<Rightarrow> Bid list \<Rightarrow> tally" where
  "tournament_loop e t [] = t"
| "tournament_loop e (encHighest, encSecond, highestBidder, secondHighestBidder) (b # rest) =
     (let isCurrentHigher = FHE_ge e encHighest (encryptedBidAmount b);
          newHighest = FHE_select encHighest (encryptedBidAmount b) isCurrentHigher;
          newSecondHighest = FHE_select encSecond encHighest isCurrentHigher;
          newHighestBidder = (if cleartext isCurrentHigher then highestBidder else bidder b);
          newSecondHighestBidder =
            (if cleartext isCurrentHigher then highestBidder else secondHighestBidder)
      in tournament_loop e (newHighest, newSecondHighest, newHighestBidder, newSecondHighestBidder) rest)"

text \<open>The seed from the first two bid slots, then the loop over the rest.\<close>

definition tournament :: "env \<Rightarrow> Bid \<Rightarrow> Bid \<Rightarrow> Bid list \<Rightarrow> tally" where
  "tournament e b0 b1 rest =
     tournament_loop e (encryptedBidAmount b0, encryptedBidAmount b1, bidder b0, bidder b1) rest"

definition requestAuctionSettlement :: "env \<Rightarrow> uint256 \<Rightarrow> contract \<Rightarrow> result" where
  "requestAuctionSettlement e b s =
     (if msg_sender e \<noteq> owner s then Inl NotOwner
      else if paused s then Inl Paused
      else if currentBatchId s \<le> b \<or> isOpen (batches s b) then Inl InvalidBatch
      else if length (bids (batches s b)) = 0 then Inl NoBids
      else if length (bids (batches s b)) < 2 then Inl NotEnoughBids
      else case checked_add (lastDecryptionRequestTime s (msg_sender e)) (cooldownSeconds s) of
        Inl err \<Rightarrow> Inl err
      | Inr ready \<Rightarrow>
          if block_timestamp e < ready then Inl CooldownActive
          else (case bids (batches s b) of
            b0 # b1 # rest \<Rightarrow>
              (case tournament e b0 b1 rest of
                 (encHighest, encSecond, highestBidder, secondHighestBidder) \<Rightarrow>
                   let cts = [toBytes32 encHighest, toBytes32 encSecond];
                       requestId = oracleRequestId e
                   in Inr (s\<lparr>lastDecryptionRequestTime :=
                                (lastDecryptionRequestTime s)(msg_sender e := block_timestamp e),
                              decryptionContexts := (decryptionContexts s)(requestId :=
                                \<lparr>ctxBatchId = b, stateHash = hashCiphertexts e cts,
                                  processed = False\<rparr>)\<rparr>,
                           [FHE_requestDecryption cts, DecryptionRequested requestId b]))
          | _ \<Rightarrow> Inl (Panic 50)))"

text \<open>
  \<^verbatim>\<open>myCallback\<close> has no modifier. It reads \<^verbatim>\<open>bids[0]\<close> and \<^verbatim>\<open>bids[1]\<close> of the
  context's batch without a length check, so a batch with fewer than two bids panics.
  Modelled from the spec: \<^verbatim>\<open>FHE.checkSignatures\<close> reverts on an invalid proof, and
  the error of that revert is \<open>InvalidProof\<close>.
\<close>

definition myCallback :: "env \<Rightarrow> uint256 \<Rightarrow> bytes \<Rightarrow> bytes \<Rightarrow> contract \<Rightarrow> result" where
  "myCallback e requestId cleartexts proof s =
     (if processed (decryptionContexts s requestId) then Inl ReplayDetected
      else let b = ctxBatchId (decryptionContexts s requestId) in
        case bids (batches s b) of
          b0 # b1 # rest \<Rightarrow>
            if hashCiphertexts e [toBytes32 (encryptedBidAmount b0), toBytes32 (encryptedBidAmount b1)]
                 \<noteq> stateHash (decryptionContexts s requestId)
            then Inl InvalidStateHash
            else if \<not> signaturesValid e requestId cleartexts proof then Inl InvalidProof
            else (case decode_at cleartexts 0 32 of
                Inl err \<Rightarrow> Inl err
              | Inr highestBidAmount \<Rightarrow>
                  (case decode_at cleartexts 32 64 of
                     Inl err \<Rightarrow> Inl err
                   | Inr secondHighestBidAmount \<Rightarrow>
                       Inr (s\<lparr>decryptionContexts := (decryptionContexts s)(requestId :=
                                (decryptionContexts s requestId)\<lparr>processed := True\<rparr>)\<rparr>,
                            [AuctionSettled b highestBidAmount (bidder b0) secondHighestBidAmount])))
        | _ \<Rightarrow> Inl (Panic 50))"

section \<open>Transactions\<close>

text \<open>
  The external entry points. A transaction that reverts leaves the storage as it was
  and emits nothing; \<open>transact\<close> returns the storage after the call, the effect log of
  the call and the error, if any.
\<close>

datatype call =
    TransferOwnership address
  | AddProvider address
  | RemoveProvider address
  | SetPaused bool
  | SetCooldownSeconds uint256
  | OpenBatch uint256
  | CloseBatch uint256
  | SubmitBid uint256 euint32 euint32
  | RequestAuctionSettlement uint256
  | MyCallback uint256 bytes bytes

fun dispatch :: "env \<Rightarrow> call \<Rightarrow> contract \<Rightarrow> result" where
  "dispatch e (TransferOwnership a) s = transferOwnership e a s"
| "dispatch e (AddProvider a) s = addProvider e a s"
| "dispatch e (RemoveProvider a) s = removeProvider e a s"
| "dispatch e (SetPaused p) s = setPaused e p s"
| "dispatch e (SetCooldownSeconds c) s = setCooldownSeconds e c s"
| "dispatch e (OpenBatch ts) s = openBatch e ts s"
| "dispatch e (CloseBatch b) s = closeBatch e b s"
| "dispatch e (SubmitBid b amount quality) s = submitBid e b amount quality s"
| "dispatch e (RequestAuctionSettlement b) s = requestAuctionSettlement e b s"
| "dispatch e (MyCallback r cleartexts proof) s = myCallback e r cleartexts proof s"

definition transact :: "env \<Rightarrow> call \<Rightarrow> contract \<Rightarrow> contract \<times> event list \<times> error option" where
  "transact e c s =
     (case dispatch e c s of
        Inl err \<Rightarrow> (s, [], Some err)
      | Inr (s', log) \<Rightarrow> (s', log, None))"

text \<open>A history of transactions, each in its own environment, run in order.\<close>

fun execute :: "(env \<times> call) list \<Rightarrow> contract \<Rightarrow> contract" where
  "execute [] s = s"
| "execute ((e, c) # rest) s = execute rest (fst (transact e c s))"

section \<open>Predicates of the properties\<close>

text \<open>
  What every transaction keeps true of the storage: batch ids start at 1, only issued
  batches are open, a batch that was never issued has no bids, and no batch holds more
  than \<open>MAX_BIDS_PER_BATCH\<close> bids.
\<close>

definition storageInv :: "contract \<Rightarrow> bool" where
  "storageInv s \<longleftrightarrow>
     1 \<le> currentBatchId s \<and>
     (\<forall>b. isOpen (batches s b) \<longrightarrow> 1 \<le> b \<and> b < currentBatchId s) \<and>
     (\<forall>b. b = 0 \<or> currentBatchId s \<le> b \<longrightarrow> bids (batches s b) = []) \<and>
     (\<forall>b. length (bids (batches s b)) \<le> MAX_BIDS_PER_BATCH)"

text \<open>
  The checks of \<^verbatim>\<open>submitBid\<close> that come before the batch is looked at: the caller
  is a provider, the contract is not paused, and the caller's cooldown has elapsed
  (without overflow of the checked sum).
\<close>

definition submitGuardsPass :: "env \<Rightarrow> contract \<Rightarrow> bool" where
  "submitGuardsPass e s \<longleftrightarrow>
     providers s (msg_sender e) \<and> \<not> paused s \<and>
     lastSubmissionTime s (msg_sender e) + cooldownSeconds s < 2 ^ 256 \<and>
     lastSubmissionTime s (msg_sender e) + cooldownSeconds s \<le> block_timestamp e"

text \<open>
  Whether a transaction is a \<^verbatim>\<open>requestAuctionSettlement\<close> to which the oracle hands
  the request id \<open>r\<close>: the only place where a decryption context is written for \<open>r\<close>.
\<close>

fun createsContext :: "uint256 \<Rightarrow> env \<times> call \<Rightarrow> bool" where
  "createsContext r (e, RequestAuctionSettlement b) = (oracleRequestId e = r)"
| "createsContext r (e, c) = False"

text \<open>
  The entry points that carry the modifier \<^verbatim>\<open>whenNotPaused\<close>, the administrative
  setters (which carry \<^verbatim>\<open>onlyOwner\<close> alone), the role check of each entry point (\<^verbatim>\<open>onlyProvider\<close> for \<^verbatim>\<open>submitBid\<close>, none for \<^verbatim>\<open>myCallback\<close>,
  \<^verbatim>\<open>onlyOwner\<close> for the others) and the error of that check.
\<close>

fun pauseGated :: "call \<Rightarrow> bool" where
  "pauseGated (OpenBatch ts) = True"
| "pauseGated (CloseBatch b) = True"
| "pauseGated (SubmitBid b amount quality) = True"
| "pauseGated (RequestAuctionSettlement b) = True"
| "pauseGated c = False"

fun adminSetter :: "call \<Rightarrow> bool" where
  "adminSetter (TransferOwnership a) = True"
| "adminSetter (AddProvider a) = True"
| "adminSetter (RemoveProvider a) = True"
| "adminSetter (SetPaused p) = True"
| "adminSetter (SetCooldownSeconds c) = True"
| "adminSetter c = False"

fun roleCheckPasses :: "env \<Rightarrow> call \<Rightarrow> contract \<Rightarrow> bool" where
  "roleCheckPasses e (SubmitBid b amount quality) s = providers s (msg_sender e)"
| "roleCheckPasses e (MyCallback r cleartexts proof) s = True"
| "roleCheckPasses e c s = (msg_sender e = owner s)"

fun roleError :: "call \<Rightarrow> error" where
  "roleError (SubmitBid b amount quality) = NotProvider"
| "roleError c = NotOwner"

text \<open>The bidder that the loop of the settlement tracks for the highest amount.\<close>

definition highestBidderOf :: "tally \<Rightarrow> address" where
  "highestBidderOf t = (case t of (encHighest, encSecond, highestBidder, secondHighestBidder) \<Rightarrow> highestBidder)"

section \<open>Scenarios\<close>

text \<open>
  Concrete environments and storages on which the theorems below are instantiated. In
  \<open>scenarioEnv\<close> the handle \<open>Handle n\<close> hides the value \<open>n\<close>, the oracle hands out
  request id 7 and accepts every proof.
\<close>

definition scenarioEnv :: "address \<Rightarrow> uint256 \<Rightarrow> env" where
  "scenarioEnv a t =
     \<lparr>msg_sender = a, block_timestamp = t, this_address = 4096,
      plaintext = (\<lambda>h. of_nat (toBytes32 h)), oracleRequestId = 7,
      signaturesValid = (\<lambda>_ _ _. True)\<rparr>"

definition bidOf :: "nat \<Rightarrow> address \<Rightarrow> Bid" where
  "bidOf v a = \<lparr>encryptedBidAmount = Handle v, encryptedAdQualityScore = Handle 0, bidder = a\<rparr>"

text \<open>The storage right after deployment by address 1 at time 0.\<close>

definition deployed :: contract where
  "deployed =
     \<lparr>owner = 1, providers = (\<lambda>_. False)(1 := True), paused = False, cooldownSeconds = 30,
      lastSubmissionTime = (\<lambda>_. 0), lastDecryptionRequestTime = (\<lambda>_. 0),
      batches = (\<lambda>_. emptyBatch)(1 :=
        \<lparr>batchId = 1, isOpen = True, closeTimestamp = 86400, bids = []\<rparr>),
      decryptionContexts = (\<lambda>_. emptyContext), currentBatchId = 2\<rparr>"

text \<open>Batch 1 with the given bids, open or closed, in the deployed contract.\<close>

definition withBatch :: "bool \<Rightarrow> Bid list \<Rightarrow> contract" where
  "withBatch opn bs =
     deployed\<lparr>batches := (\<lambda>_. emptyBatch)(1 :=
       \<lparr>batchId = 1, isOpen = opn, closeTimestamp = 86400, bids = bs\<rparr>)\<rparr>"

text \<open>The ABI word of a number below 256: 31 zero bytes and the number.\<close>

definition abiWord :: "nat \<Rightarrow> bytes" where
  "abiWord n = replicate 31 0 @ [of_nat n]"

text \<open>
  An auction on batch 1 of the deployed contract: the owner admits the providers 2 and
  3, every bid is submitted by its bidder at time 100, and the owner closes the batch
  at time 200. \<open>closedAuction\<close> is the storage that the auction leads to.
\<close>

definition auction :: "Bid list \<Rightarrow> (env \<times> call) list" where
  "auction bs =
     [(scenarioEnv 1 10, AddProvider 2), (scenarioEnv 1 11, AddProvider 3)] @
     map (\<lambda>b. (scenarioEnv (bidder b) 100,
                SubmitBid 1 (encryptedBidAmount b) (encryptedAdQualityScore b))) bs @
     [(scenarioEnv 1 200, CloseBatch 1)]"

definition closedAuction :: "Bid list \<Rightarrow> contract" where
  "closedAuction bs =
     deployed\<lparr>providers := (\<lambda>_. False)(1 := True, 2 := True, 3 := True),
              lastSubmissionTime := foldl (\<lambda>f b. f(bidder b := 100)) (\<lambda>_. 0) bs,
              batches := (\<lambda>_. emptyBatch)(1 :=
                \<lparr>batchId = 1, isOpen = False, closeTimestamp = 86400, bids = bs\<rparr>)\<rparr>"

text \<open>The storage after the auction and the owner's settlement request at time 300.\<close>

definition requested :: "Bid list \<Rightarrow> contract" where
  "requested bs =
     execute (auction bs @ [(scenarioEnv 1 300, RequestAuctionSettlement 1)]) deployed"

text \<open>
  The scenario of the specification: three providers bid 10, 30 and 20 on batch 1, the
  owner closes the batch and requests the settlement.
\<close>

definition scenarioTrace :: "(env \<times> call) list" where
  "scenarioTrace =
     auction [bidOf 10 1, bidOf 30 2, bidOf 20 3] @
     [(scenarioEnv 1 300, RequestAuctionSettlement 1)]"

text \<open>The deployed contract, paused.\<close>

definition pausedContract :: contract where
  "pausedContract = deployed\<lparr>paused := True\<rparr>"

section \<open>Reverts and storage invariants\<close>

lemmas scenario_defs = scenarioEnv_def deployed_def withBatch_def closedAuction_def bidOf_def
  emptyBatch_def emptyContext_def

lemma transact_reverted: "transact e c s = (s', log, Some err) \<Longrightarrow> s' = s \<and> log = []"
  by (auto simp: transact_def split: sum.splits)

lemma transact_Inl: "dispatch e c s = Inl err \<Longrightarrow> transact e c s = (s, [], Some err)"
  by (simp add: transact_def)

lemma transact_Inr: "dispatch e c s = Inr (s', log) \<Longrightarrow> transact e c s = (s', log, None)"
  by (simp add: transact_def)

lemma openNewBatch_inv: "storageInv s \<Longrightarrow> openNewBatch ts s = Inr (s', log) \<Longrightarrow> storageInv s'"
  by (auto simp: storageInv_def openNewBatch_def checked_add_def split: if_splits)

lemma constructor_inv: "constructor e = Inr (s, log) \<Longrightarrow> storageInv s"
  by (auto simp: storageInv_def constructor_def openNewBatch_def checked_add_def zeroStorage_def emptyBatch_def Let_def split: if_splits)

lemma closeBatch_inv: "storageInv s \<Longrightarrow> closeBatch e b s = Inr (s', log) \<Longrightarrow> storageInv s'"
  by (auto simp: storageInv_def closeBatch_def split: if_splits)

lemma submitBid_inv: "storageInv s \<Longrightarrow> submitBid e b a q s = Inr (s', log) \<Longrightarrow> storageInv s'"
  by (auto simp: storageInv_def submitBid_def split: if_splits sum.splits)

lemma requestAuctionSettlement_frame:
  "requestAuctionSettlement e b s = Inr (s', log) \<Longrightarrow>
     batches s' = batches s \<and> currentBatchId s' = currentBatchId s"
  by (auto simp: requestAuctionSettlement_def Let_def split: if_splits sum.splits list.splits prod.splits)

lemma myCallback_frame:
  "myCallback e r c p s = Inr (s', log) \<Longrightarrow>
     batches s' = batches s \<and> currentBatchId s' = currentBatchId s"
  by (auto simp: myCallback_def Let_def split: if_splits sum.splits list.splits)

lemma storageInv_frame:
  "storageInv s \<Longrightarrow> batches s' = batches s \<Longrightarrow> currentBatchId s' = currentBatchId s \<Longrightarrow> storageInv s'"
  by (simp add: storageInv_def)

lemma dispatch_inv: "storageInv s \<Longrightarrow> dispatch e c s = Inr (s', log) \<Longrightarrow> storageInv s'"
proof (cases c)
  case (OpenBatch ts)
  assume "storageInv s" "dispatch e c s = Inr (s', log)"
  with OpenBatch show ?thesis
    by (auto simp: openBatch_def split: if_splits dest: openNewBatch_inv)
next
  case (CloseBatch b)
  assume "storageInv s" "dispatch e c s = Inr (s', log)"
  with CloseBatch show ?thesis by (auto dest: closeBatch_inv)
next
  case (SubmitBid b a q)
  assume "storageInv s" "dispatch e c s = Inr (s', log)"
  with SubmitBid show ?thesis by (auto dest: submitBid_inv)
next
  case (RequestAuctionSettlement b)
  assume "storageInv s" "dispatch e c s = Inr (s', log)"
  with RequestAuctionSettlement show ?thesis
    by (auto dest!: requestAuctionSettlement_frame intro: storageInv_frame)
next
  case (MyCallback r ct pf)
  assume "storageInv s" "dispatch e c s = Inr (s', log)"
  with MyCallback show ?thesis
    by (auto dest!: myCallback_frame intro: storageInv_frame)
qed (auto simp: storageInv_def transferOwnership_def addProvider_def removeProvider_def
       setPaused_def setCooldownSeconds_def split: if_splits)

lemma transact_inv: "storageInv s \<Longrightarrow> storageInv (fst (transact e c s))"
  by (auto simp: transact_def split: sum.splits dest: dispatch_inv)

lemma execute_inv: "storageInv s \<Longrightarrow> storageInv (execute tr s)"
  by (induction tr arbitrary: s) (auto simp: transact_inv)

section \<open>Capacity of a batch\<close>

lemma deployed_constructor: "constructor (scenarioEnv 1 0) = Inr (deployed, [BatchOpened 1 86400])"
  by (simp add: constructor_def scenarioEnv_def deployed_def openNewBatch_def checked_add_def
      zeroStorage_def Let_def)

lemma execute_bound:
  "constructor e0 = Inr (s0, l0) \<Longrightarrow> length (bids (batches (execute tr s0) b)) \<le> MAX_BIDS_PER_BATCH"
  using execute_inv [OF constructor_inv, of e0 s0 l0 tr] by (simp add: storageInv_def)

lemma submitBid_full_fails:
  "MAX_BIDS_PER_BATCH \<le> length (bids (batches s b)) \<Longrightarrow> \<exists>err. submitBid e b a q s = Inl err"
  by (simp add: submitBid_def split: sum.splits)

lemma submitBid_BatchFull:
  "submitGuardsPass e s \<Longrightarrow> b < currentBatchId s \<Longrightarrow> isOpen (batches s b) \<Longrightarrow>
   MAX_BIDS_PER_BATCH \<le> length (bids (batches s b)) \<Longrightarrow> submitBid e b a q s = Inl BatchFull"
  by (simp add: submitBid_def submitGuardsPass_def checked_add_def)

text \<open>
  Claim C8. In every storage that a history of transactions reaches from the
  constructor, no batch holds more than \<open>MAX_BIDS_PER_BATCH\<close> bids. A
  \<^verbatim>\<open>submitBid\<close> to a batch whose bid count is at capacity always fails and appends
  nothing (the storage is as before and nothing is emitted); the error is \<open>BatchFull\<close>
  whenever the call gets as far as the capacity check, that is when the caller is a
  provider, the contract is not paused, the cooldown has elapsed and the batch is open.
\<close>

theorem bid_count_never_exceeds_capacity:
  "(constructor e0 = Inr (s0, l0) \<longrightarrow>
      length (bids (batches (execute tr s0) b)) \<le> MAX_BIDS_PER_BATCH) \<and>
   (MAX_BIDS_PER_BATCH \<le> length (bids (batches s b)) \<longrightarrow>
      (\<exists>err. transact e (SubmitBid b a q) s = (s, [], Some err)) \<and>
      (submitGuardsPass e s \<and> b < currentBatchId s \<and> isOpen (batches s b) \<longrightarrow>
         transact e (SubmitBid b a q) s = (s, [], Some BatchFull)))"
proof (intro conjI impI)
  assume "constructor e0 = Inr (s0, l0)"
  then show "length (bids (batches (execute tr s0) b)) \<le> MAX_BIDS_PER_BATCH"
    by (rule execute_bound)
next
  assume full: "MAX_BIDS_PER_BATCH \<le> length (bids (batches s b))"
  from submitBid_full_fails [OF full] obtain err where "submitBid e b a q s = Inl err"
    by blast
  then have "transact e (SubmitBid b a q) s = (s, [], Some err)"
    by (simp add: transact_Inl)
  then show "\<exists>err. transact e (SubmitBid b a q) s = (s, [], Some err)" ..
next
  assume full: "MAX_BIDS_PER_BATCH \<le> length (bids (batches s b))"
    and g: "submitGuardsPass e s \<and> b < currentBatchId s \<and> isOpen (batches s b)"
  then have "submitBid e b a q s = Inl BatchFull"
    by (simp add: submitBid_BatchFull)
  then show "transact e (SubmitBid b a q) s = (s, [], Some BatchFull)"
    by (simp add: transact_Inl)
qed

theorem bid_count_never_exceeds_capacity_witness:
  "length (bids (batches (execute [(scenarioEnv 1 100, SubmitBid 1 (Handle 10) (Handle 0))] deployed) 1)) = 1 \<and>
   length (bids (batches (execute [(scenarioEnv 1 100, SubmitBid 1 (Handle 10) (Handle 0))] deployed) 1))
     \<le> MAX_BIDS_PER_BATCH \<and>
   transact (scenarioEnv 1 100) (SubmitBid 1 (Handle 10) (Handle 0))
       (withBatch True (replicate 100 (bidOf 5 1)))
     = (withBatch True (replicate 100 (bidOf 5 1)), [], Some BatchFull)"
proof -
  let ?e = "scenarioEnv 1 100"
  let ?s = "withBatch True (replicate 100 (bidOf 5 1))"
  let ?tr = "[(?e, SubmitBid 1 (Handle 10) (Handle 0))]"
  have run: "length (bids (batches (execute ?tr deployed) 1)) = 1"
    by (simp add: transact_def submitBid_def scenarioEnv_def deployed_def checked_add_def
        MAX_BIDS_PER_BATCH_def)
  have full: "MAX_BIDS_PER_BATCH \<le> length (bids (batches ?s 1))"
    by (simp add: withBatch_def MAX_BIDS_PER_BATCH_def)
  have guards: "submitGuardsPass ?e ?s \<and> 1 < currentBatchId ?s \<and> isOpen (batches ?s 1)"
    by (simp add: submitGuardsPass_def withBatch_def deployed_def scenarioEnv_def)
  from bid_count_never_exceeds_capacity [of "scenarioEnv 1 0" deployed "[BatchOpened 1 86400]" ?tr 1 ?s ?e "Handle 10" "Handle 0"]
    deployed_constructor run full guards
  show ?thesis by blast
qed

section \<open>Closing a batch\<close>

lemma dispatch_closed:
  "b < currentBatchId s \<Longrightarrow> \<not> isOpen (batches s b) \<Longrightarrow> dispatch e c s = Inr (s', log) \<Longrightarrow>
   b < currentBatchId s' \<and> \<not> isOpen (batches s' b) \<and> bids (batches s' b) = bids (batches s b)"
proof (cases c)
  case (RequestAuctionSettlement b')
  assume "b < currentBatchId s" "\<not> isOpen (batches s b)" "dispatch e c s = Inr (s', log)"
  with RequestAuctionSettlement show ?thesis
    by (auto dest!: requestAuctionSettlement_frame)
next
  case (MyCallback r ct pf)
  assume "b < currentBatchId s" "\<not> isOpen (batches s b)" "dispatch e c s = Inr (s', log)"
  with MyCallback show ?thesis
    by (auto dest!: myCallback_frame)
qed (auto simp: transferOwnership_def addProvider_def removeProvider_def setPaused_def
       setCooldownSeconds_def openBatch_def openNewBatch_def checked_add_def closeBatch_def
       submitBid_def split: if_splits sum.splits)

lemma transact_closed:
  "b < currentBatchId s \<Longrightarrow> \<not> isOpen (batches s b) \<Longrightarrow>
   b < currentBatchId (fst (transact e c s)) \<and> \<not> isOpen (batches (fst (transact e c s)) b) \<and>
   bids (batches (fst (transact e c s)) b) = bids (batches s b)"
  by (auto simp: transact_def split: sum.splits dest: dispatch_closed)

lemma execute_closed:
  "b < currentBatchId s \<Longrightarrow> \<not> isOpen (batches s b) \<Longrightarrow>
   b < currentBatchId (execute tr s) \<and> \<not> isOpen (batches (execute tr s) b) \<and>
   bids (batches (execute tr s) b) = bids (batches s b)"
proof (induction tr arbitrary: s)
  case Nil
  then show ?case by simp
next
  case (Cons x tr)
  obtain e c where x: "x = (e, c)" by (cases x)
  from transact_closed [OF Cons.prems, of e c] Cons.IH [of "fst (transact e c s)"] x
  show ?case by simp
qed

lemma closeBatch_closes:
  "closeBatch e b s = Inr (s', log) \<Longrightarrow> b < currentBatchId s' \<and> \<not> isOpen (batches s' b)"
  by (auto simp: closeBatch_def split: if_splits)

lemma closeBatch_InvalidBatch:
  "msg_sender e = owner s \<Longrightarrow> \<not> paused s \<Longrightarrow> currentBatchId s \<le> b \<or> \<not> isOpen (batches s b) \<Longrightarrow>
   closeBatch e b s = Inl InvalidBatch"
  by (auto simp: closeBatch_def)

lemma submitBid_BatchClosed:
  "submitGuardsPass e s \<Longrightarrow> currentBatchId s \<le> b \<or> \<not> isOpen (batches s b) \<Longrightarrow>
   submitBid e b a q s = Inl BatchClosed"
  by (auto simp: submitBid_def submitGuardsPass_def checked_add_def)

lemma storageInv_unissued: "storageInv s \<Longrightarrow> b = 0 \<or> currentBatchId s \<le> b \<Longrightarrow> \<not> isOpen (batches s b)"
  by (auto simp: storageInv_def)

lemma reachable_inv: "constructor e0 = Inr (s0, l0) \<Longrightarrow> storageInv (execute tr s0)"
  by (rule execute_inv [OF constructor_inv])

text \<open>
  Claim C9. In every storage reached from the constructor, \<^verbatim>\<open>closeBatch\<close> by the
  owner of the unpaused contract fails with \<open>InvalidBatch\<close> on an id that was never
  issued (0, or an id from \<open>currentBatchId\<close> on) and on a batch that is already closed.
  After a successful \<^verbatim>\<open>closeBatch\<close> the batch is closed after every further history
  of transactions, and every \<^verbatim>\<open>submitBid\<close> to it that passes the checks before the
  batch is looked at (provider, not paused, cooldown) fails with \<open>BatchClosed\<close>; so
  does such a \<^verbatim>\<open>submitBid\<close> to an id that was never issued.
\<close>

theorem closeBatch_is_final:
  "(constructor e0 = Inr (s0, l0) \<and> msg_sender e = owner (execute tr s0) \<and> \<not> paused (execute tr s0) \<and>
      (b = 0 \<or> currentBatchId (execute tr s0) \<le> b \<or> \<not> isOpen (batches (execute tr s0) b)) \<longrightarrow>
      transact e (CloseBatch b) (execute tr s0) = (execute tr s0, [], Some InvalidBatch)) \<and>
   (transact e1 (CloseBatch b) s = (s1, l1, None) \<longrightarrow>
      \<not> isOpen (batches (execute tr s1) b) \<and>
      (submitGuardsPass e2 (execute tr s1) \<longrightarrow>
         transact e2 (SubmitBid b a q) (execute tr s1) = (execute tr s1, [], Some BatchClosed))) \<and>
   (constructor e0 = Inr (s0, l0) \<and> (b = 0 \<or> currentBatchId (execute tr s0) \<le> b) \<and>
      submitGuardsPass e2 (execute tr s0) \<longrightarrow>
      transact e2 (SubmitBid b a q) (execute tr s0) = (execute tr s0, [], Some BatchClosed))"
proof (intro conjI impI)
  assume h: "constructor e0 = Inr (s0, l0) \<and> msg_sender e = owner (execute tr s0) \<and>
    \<not> paused (execute tr s0) \<and>
    (b = 0 \<or> currentBatchId (execute tr s0) \<le> b \<or> \<not> isOpen (batches (execute tr s0) b))"
  then have "storageInv (execute tr s0)" using reachable_inv by blast
  with h have "currentBatchId (execute tr s0) \<le> b \<or> \<not> isOpen (batches (execute tr s0) b)"
    using storageInv_unissued [of "execute tr s0" b] by blast
  with h have "closeBatch e b (execute tr s0) = Inl InvalidBatch"
    by (simp add: closeBatch_InvalidBatch)
  then show "transact e (CloseBatch b) (execute tr s0) = (execute tr s0, [], Some InvalidBatch)"
    by (simp add: transact_Inl)
next
  assume "transact e1 (CloseBatch b) s = (s1, l1, None)"
  then have "closeBatch e1 b s = Inr (s1, l1)"
    by (auto simp: transact_def split: sum.splits)
  then have "b < currentBatchId s1 \<and> \<not> isOpen (batches s1 b)" by (rule closeBatch_closes)
  then show "\<not> isOpen (batches (execute tr s1) b)" by (simp add: execute_closed)
next
  assume "transact e1 (CloseBatch b) s = (s1, l1, None)"
    and g: "submitGuardsPass e2 (execute tr s1)"
  then have "closeBatch e1 b s = Inr (s1, l1)"
    by (auto simp: transact_def split: sum.splits)
  then have "b < currentBatchId s1 \<and> \<not> isOpen (batches s1 b)" by (rule closeBatch_closes)
  then have "\<not> isOpen (batches (execute tr s1) b)" by (simp add: execute_closed)
  with g have "submitBid e2 b a q (execute tr s1) = Inl BatchClosed"
    by (simp add: submitBid_BatchClosed)
  then show "transact e2 (SubmitBid b a q) (execute tr s1) = (execute tr s1, [], Some BatchClosed)"
    by (simp add: transact_Inl)
next
  assume h: "constructor e0 = Inr (s0, l0) \<and> (b = 0 \<or> currentBatchId (execute tr s0) \<le> b) \<and>
    submitGuardsPass e2 (execute tr s0)"
  then have "storageInv (execute tr s0)" using reachable_inv by blast
  with h have "\<not> isOpen (batches (execute tr s0) b)"
    using storageInv_unissued [of "execute tr s0" b] by blast
  with h have "submitBid e2 b a q (execute tr s0) = Inl BatchClosed"
    by (simp add: submitBid_BatchClosed)
  then show "transact e2 (SubmitBid b a q) (execute tr s0) = (execute tr s0, [], Some BatchClosed)"
    by (simp add: transact_Inl)
qed

theorem closeBatch_is_final_witness:
  "transact (scenarioEnv 1 5) (CloseBatch 0) deployed = (deployed, [], Some InvalidBatch) \<and>
   transact (scenarioEnv 1 5) (CloseBatch 7) deployed = (deployed, [], Some InvalidBatch) \<and>
   transact (scenarioEnv 1 50) (CloseBatch 1) deployed = (withBatch False [], [BatchClosedEvent 1], None) \<and>
   transact (scenarioEnv 1 70) (CloseBatch 1) (execute [(scenarioEnv 1 60, OpenBatch 999)] (withBatch False []))
     = (execute [(scenarioEnv 1 60, OpenBatch 999)] (withBatch False []), [], Some InvalidBatch) \<and>
   \<not> isOpen (batches (execute [(scenarioEnv 1 60, OpenBatch 999)] (withBatch False [])) 1) \<and>
   transact (scenarioEnv 1 70) (SubmitBid 1 (Handle 5) (Handle 0))
       (execute [(scenarioEnv 1 60, OpenBatch 999)] (withBatch False []))
     = (execute [(scenarioEnv 1 60, OpenBatch 999)] (withBatch False []), [], Some BatchClosed) \<and>
   transact (scenarioEnv 1 70) (SubmitBid 0 (Handle 5) (Handle 0)) deployed
     = (deployed, [], Some BatchClosed)"
proof -
  let ?e0 = "scenarioEnv 1 0"
  let ?l0 = "[BatchOpened 1 86400]"
  let ?tr = "[(scenarioEnv 1 60, OpenBatch 999)]"
  let ?s1 = "withBatch False []"
  have close: "transact (scenarioEnv 1 50) (CloseBatch 1) deployed = (?s1, [BatchClosedEvent 1], None)"
    by (simp add: transact_def closeBatch_def scenario_defs)
  have exec0: "execute [] deployed = deployed" by simp
  have owner0: "msg_sender (scenarioEnv 1 5) = owner deployed \<and> \<not> paused deployed"
    by (simp add: scenario_defs)
  have cur0: "currentBatchId deployed \<le> 7" by (simp add: scenario_defs)
  have guards0: "submitGuardsPass (scenarioEnv 1 70) deployed"
    by (simp add: submitGuardsPass_def scenario_defs)
  have guards1: "submitGuardsPass (scenarioEnv 1 70) (execute ?tr ?s1)"
    by (simp add: submitGuardsPass_def transact_def openBatch_def openNewBatch_def checked_add_def
        scenario_defs)
  have owner1: "msg_sender (scenarioEnv 1 70) = owner (execute ?tr ?s1) \<and> \<not> paused (execute ?tr ?s1)"
    by (simp add: transact_def openBatch_def openNewBatch_def checked_add_def scenario_defs)
  note a = closeBatch_is_final [of ?e0 deployed ?l0 "scenarioEnv 1 5" "[]" 0 "scenarioEnv 1 50" deployed ?s1
      "[BatchClosedEvent 1]" "scenarioEnv 1 70" "Handle 5" "Handle 0"]
  note b = closeBatch_is_final [of ?e0 deployed ?l0 "scenarioEnv 1 5" "[]" 7 "scenarioEnv 1 50" deployed ?s1
      "[BatchClosedEvent 1]" "scenarioEnv 1 70" "Handle 5" "Handle 0"]
  note c = closeBatch_is_final [of ?e0 deployed ?l0 "scenarioEnv 1 5" ?tr 1 "scenarioEnv 1 50" deployed ?s1
      "[BatchClosedEvent 1]" "scenarioEnv 1 70" "Handle 5" "Handle 0"]
  have c1: "transact (scenarioEnv 1 5) (CloseBatch 0) deployed = (deployed, [], Some InvalidBatch)"
    using a deployed_constructor owner0 exec0 by simp
  have c2: "transact (scenarioEnv 1 5) (CloseBatch 7) deployed = (deployed, [], Some InvalidBatch)"
    using b deployed_constructor owner0 cur0 exec0 by simp
  have c7: "transact (scenarioEnv 1 70) (SubmitBid 0 (Handle 5) (Handle 0)) deployed
     = (deployed, [], Some BatchClosed)"
    using a deployed_constructor guards0 exec0 by simp
  have c56: "\<not> isOpen (batches (execute ?tr ?s1) 1) \<and>
     transact (scenarioEnv 1 70) (SubmitBid 1 (Handle 5) (Handle 0)) (execute ?tr ?s1)
       = (execute ?tr ?s1, [], Some BatchClosed)"
    using c close guards1 by blast
  have ctor1: "constructor ?e0 = Inr (deployed, ?l0)" by (rule deployed_constructor)
  have reach: "execute ?tr ?s1 = execute ((scenarioEnv 1 50, CloseBatch 1) # ?tr) deployed"
    using close by simp
  have c4: "transact (scenarioEnv 1 70) (CloseBatch 1) (execute ?tr ?s1)
     = (execute ?tr ?s1, [], Some InvalidBatch)"
    using closeBatch_is_final [of ?e0 deployed ?l0 "scenarioEnv 1 70" "(scenarioEnv 1 50, CloseBatch 1) # ?tr" 1
        "scenarioEnv 1 50" deployed ?s1 "[BatchClosedEvent 1]" "scenarioEnv 1 70" "Handle 5" "Handle 0"]
      ctor1 owner1 c56 reach by simp
  from c1 c2 close c4 c56 c7 show ?thesis by blast
qed

section \<open>The decryption callback\<close>

lemma myCallback_no_context:
  "storageInv s \<Longrightarrow> decryptionContexts s r = emptyContext \<Longrightarrow>
   myCallback e r cleartexts proof s = Inl (Panic 50)"
  by (simp add: myCallback_def emptyContext_def storageInv_def)

lemma dispatch_no_context:
  assumes "storageInv s" and "decryptionContexts s r = emptyContext"
    and "\<not> createsContext r (e, c)" and "dispatch e c s = Inr (s', log)"
  shows "decryptionContexts s' r = emptyContext"
proof (cases c)
  case (RequestAuctionSettlement b)
  with assms show ?thesis
    by (auto simp: requestAuctionSettlement_def Let_def
        split: if_splits sum.splits list.splits prod.splits)
next
  case (MyCallback r' ct pf)
  show ?thesis
  proof (cases "r' = r")
    case True
    with assms MyCallback show ?thesis by (simp add: myCallback_no_context)
  next
    case False
    with assms MyCallback show ?thesis
      by (auto simp: myCallback_def Let_def split: if_splits sum.splits list.splits)
  qed
qed (use assms in \<open>auto simp: transferOwnership_def addProvider_def removeProvider_def setPaused_def
       setCooldownSeconds_def openBatch_def openNewBatch_def checked_add_def closeBatch_def
       submitBid_def split: if_splits sum.splits\<close>)

lemma transact_no_context:
  "storageInv s \<Longrightarrow> decryptionContexts s r = emptyContext \<Longrightarrow> \<not> createsContext r (e, c) \<Longrightarrow>
   decryptionContexts (fst (transact e c s)) r = emptyContext"
  by (auto simp: transact_def split: sum.splits dest: dispatch_no_context)

lemma execute_no_context:
  "storageInv s \<Longrightarrow> decryptionContexts s r = emptyContext \<Longrightarrow> \<not> list_ex (createsContext r) tr \<Longrightarrow>
   decryptionContexts (execute tr s) r = emptyContext"
proof (induction tr arbitrary: s)
  case Nil
  then show ?case by simp
next
  case (Cons x tr)
  obtain e c where x: "x = (e, c)" by (cases x)
  with Cons.prems have "decryptionContexts (fst (transact e c s)) r = emptyContext"
    by (simp add: transact_no_context)
  moreover from Cons.prems have "storageInv (fst (transact e c s))"
    by (simp add: transact_inv)
  ultimately show ?case using Cons.IH [of "fst (transact e c s)"] Cons.prems x by simp
qed

lemma constructor_no_context: "constructor e = Inr (s, log) \<Longrightarrow> decryptionContexts s r = emptyContext"
  by (auto simp: constructor_def openNewBatch_def checked_add_def zeroStorage_def Let_def
      split: if_splits)

text \<open>
  Claim C10. After any history of transactions from the constructor in which no
  settlement request was handed the request id \<open>r\<close>, the context of \<open>r\<close> is the zero
  context (not processed, batch id 0), batch 0 has no bids, and \<^verbatim>\<open>myCallback\<close> with
  \<open>r\<close> aborts with the out-of-bounds panic 0x32 on \<^verbatim>\<open>bids[0]\<close>: none of
  \<open>ReplayDetected\<close>, \<open>InvalidStateHash\<close>, \<open>InvalidProof\<close>.
\<close>

theorem callback_without_context_panics:
  assumes "constructor e0 = Inr (s0, l0)" and "\<not> list_ex (createsContext r) tr"
  shows "transact e (MyCallback r cleartexts proof) (execute tr s0)
           = (execute tr s0, [], Some (Panic 50))"
proof -
  from assms(1) have inv: "storageInv (execute tr s0)" by (rule reachable_inv)
  from assms have "decryptionContexts (execute tr s0) r = emptyContext"
    by (simp add: execute_no_context constructor_inv constructor_no_context)
  with inv have "myCallback e r cleartexts proof (execute tr s0) = Inl (Panic 50)"
    by (rule myCallback_no_context)
  then show ?thesis by (simp add: transact_Inl)
qed

theorem callback_without_context_panics_witness:
  "transact (scenarioEnv 9 400) (MyCallback 8 (abiWord 30 @ abiWord 20) []) (execute scenarioTrace deployed)
     = (execute scenarioTrace deployed, [], Some (Panic 50))"
proof -
  have "\<not> list_ex (createsContext 8) scenarioTrace"
    by (simp add: scenarioTrace_def auction_def scenarioEnv_def)
  with callback_without_context_panics [OF deployed_constructor] show ?thesis .
qed

section \<open>Concrete runs\<close>

lemma be_uint_zeros: "foldl (\<lambda>acc b. acc * 256 + unat b) 0 (replicate n (0::8 word)) = 0"
  by (induction n) simp_all

lemma be_uint_abiWord: "n < 256 \<Longrightarrow> be_uint (abiWord n) = n"
  by (simp add: be_uint_def abiWord_def be_uint_zeros of_nat_inverse)

lemma length_abiWord: "length (abiWord n) = 32"
  by (simp add: abiWord_def)

lemma decode_first: "n < 256 \<Longrightarrow> decode_at (abiWord n @ abiWord m) 0 32 = Inr n"
  by (simp add: decode_at_def slice_def abi_decode_uint32_def length_abiWord be_uint_abiWord)

lemma decode_second: "m < 256 \<Longrightarrow> decode_at (abiWord n @ abiWord m) 32 64 = Inr m"
  by (simp add: decode_at_def slice_def abi_decode_uint32_def length_abiWord be_uint_abiWord)

lemma execute_append: "execute (xs @ ys) s = execute ys (execute xs s)"
  by (induction xs arbitrary: s) auto

lemma auction_run2:
  "execute (auction [bidOf a 1, bidOf b 2]) deployed = closedAuction [bidOf a 1, bidOf b 2]"
  by (simp add: auction_def transact_def addProvider_def submitBid_def closeBatch_def
      checked_add_def MAX_BIDS_PER_BATCH_def scenario_defs)

lemma auction_run3:
  "execute (auction [bidOf a 1, bidOf b 2, bidOf c 3]) deployed
     = closedAuction [bidOf a 1, bidOf b 2, bidOf c 3]"
  by (simp add: auction_def transact_def addProvider_def submitBid_def closeBatch_def
      checked_add_def MAX_BIDS_PER_BATCH_def scenario_defs)

lemma requested_run:
  "requested bs = fst (transact (scenarioEnv 1 300) (RequestAuctionSettlement 1)
                         (execute (auction bs) deployed))"
  by (simp add: requested_def execute_append)

lemma requested_30_20_10:
  "requested [bidOf 30 1, bidOf 20 2, bidOf 10 3] =
     (closedAuction [bidOf 30 1, bidOf 20 2, bidOf 10 3])
       \<lparr>lastDecryptionRequestTime := (\<lambda>_. 0)(1 := 300),
        decryptionContexts := (\<lambda>_. emptyContext)(7 :=
          \<lparr>ctxBatchId = 1, stateHash = Keccak256 [30, 20] 4096, processed = False\<rparr>)\<rparr>"
  unfolding requested_run auction_run3
  by (simp add: transact_def requestAuctionSettlement_def tournament_def
      FHE_ge_def FHE_select_def hashCiphertexts_def checked_add_def Let_def scenario_defs)

lemma callback_30_20_10:
  "transact (scenarioEnv 9 400) (MyCallback 7 (abiWord 30 @ abiWord 20) [])
       (requested [bidOf 30 1, bidOf 20 2, bidOf 10 3])
     = ((requested [bidOf 30 1, bidOf 20 2, bidOf 10 3])
          \<lparr>decryptionContexts := (\<lambda>_. emptyContext)(7 :=
             \<lparr>ctxBatchId = 1, stateHash = Keccak256 [30, 20] 4096, processed = True\<rparr>)\<rparr>,
        [AuctionSettled 1 30 1 20], None)"
  unfolding requested_30_20_10
  by (simp add: transact_def myCallback_def hashCiphertexts_def Let_def
      decode_first decode_second scenario_defs)

section \<open>Replay protection\<close>

lemma myCallback_replay:
  "processed (decryptionContexts s r) \<Longrightarrow> myCallback e r cleartexts proof s = Inl ReplayDetected"
  by (simp add: myCallback_def)

lemma myCallback_marks_processed:
  "myCallback e r cleartexts proof s = Inr (s', log) \<Longrightarrow> processed (decryptionContexts s' r)"
  by (auto simp: myCallback_def Let_def split: if_splits sum.splits list.splits)

text \<open>
  Claim C6. A \<^verbatim>\<open>myCallback\<close> for a request id whose context is marked processed
  fails with \<open>ReplayDetected\<close>; in particular a second callback after a successful one
  does, whatever cleartexts and proof it carries. Every failing callback, whatever its
  error, leaves the whole storage (the processed flag included) as it was and emits
  nothing.
\<close>

theorem callback_replay_and_failures:
  "(processed (decryptionContexts s r) \<longrightarrow>
      transact e (MyCallback r cleartexts proof) s = (s, [], Some ReplayDetected)) \<and>
   (transact e (MyCallback r cleartexts proof) s = (s1, log1, None) \<longrightarrow>
      transact e2 (MyCallback r cleartexts2 proof2) s1 = (s1, [], Some ReplayDetected)) \<and>
   (transact e (MyCallback r cleartexts proof) s = (s', log, Some err) \<longrightarrow> s' = s \<and> log = [])"
proof (intro conjI impI)
  assume "processed (decryptionContexts s r)"
  then show "transact e (MyCallback r cleartexts proof) s = (s, [], Some ReplayDetected)"
    by (simp add: transact_Inl myCallback_replay)
next
  assume "transact e (MyCallback r cleartexts proof) s = (s1, log1, None)"
  then have "myCallback e r cleartexts proof s = Inr (s1, log1)"
    by (auto simp: transact_def split: sum.splits)
  then have "processed (decryptionContexts s1 r)" by (rule myCallback_marks_processed)
  then show "transact e2 (MyCallback r cleartexts2 proof2) s1 = (s1, [], Some ReplayDetected)"
    by (simp add: transact_Inl myCallback_replay)
next
  assume "transact e (MyCallback r cleartexts proof) s = (s', log, Some err)"
  then show "s' = s" by (simp add: transact_reverted)
next
  assume "transact e (MyCallback r cleartexts proof) s = (s', log, Some err)"
  then show "log = []" by (simp add: transact_reverted)
qed

theorem callback_replay_and_failures_witness:
  "transact (scenarioEnv 9 500) (MyCallback 7 (abiWord 99 @ abiWord 98) [])
       (fst (transact (scenarioEnv 9 400) (MyCallback 7 (abiWord 30 @ abiWord 20) [])
              (requested [bidOf 30 1, bidOf 20 2, bidOf 10 3])))
     = (fst (transact (scenarioEnv 9 400) (MyCallback 7 (abiWord 30 @ abiWord 20) [])
              (requested [bidOf 30 1, bidOf 20 2, bidOf 10 3])), [], Some ReplayDetected) \<and>
   processed (decryptionContexts
     (fst (transact (scenarioEnv 9 400) (MyCallback 7 (abiWord 30 @ abiWord 20) [])
              (requested [bidOf 30 1, bidOf 20 2, bidOf 10 3]))) 7)"
proof -
  let ?s = "requested [bidOf 30 1, bidOf 20 2, bidOf 10 3]"
  let ?s1 = "?s\<lparr>decryptionContexts := (\<lambda>_. emptyContext)(7 :=
             \<lparr>ctxBatchId = 1, stateHash = Keccak256 [30, 20] 4096, processed = True\<rparr>)\<rparr>"
  let ?c = "MyCallback 7 (abiWord 99 @ abiWord 98) []"
  note first = callback_30_20_10
  have fin: "processed (decryptionContexts ?s1 7)" by simp
  from callback_replay_and_failures [of ?s 7 "scenarioEnv 9 400" "abiWord 30 @ abiWord 20" "[]" ?s1
      "[AuctionSettled 1 30 1 20]" "scenarioEnv 9 500" "abiWord 99 @ abiWord 98" "[]"] first
  have second: "transact (scenarioEnv 9 500) ?c ?s1 = (?s1, [], Some ReplayDetected)"
    by blast
  from callback_replay_and_failures [of ?s1 7 "scenarioEnv 9 500" "abiWord 99 @ abiWord 98" "[]" ?s1
      "[]" "scenarioEnv 9 500" "abiWord 99 @ abiWord 98" "[]" ?s1 "[]" ReplayDetected] fin second
  have "transact (scenarioEnv 9 500) ?c ?s1 = (?s1, [], Some ReplayDetected)"
    by blast
  with fin first show ?thesis by simp
qed

section \<open>Pause and roles\<close>

lemma pausedContract_run: "execute [(scenarioEnv 1 5, SetPaused True)] deployed = pausedContract"
  by (simp add: pausedContract_def transact_def setPaused_def scenarioEnv_def deployed_def)

lemma gated_role_error:
  "pauseGated c \<Longrightarrow> \<not> roleCheckPasses e c s \<Longrightarrow> dispatch e c s = Inl (roleError c)"
  by (cases c) (simp_all add: openBatch_def closeBatch_def submitBid_def requestAuctionSettlement_def)

lemma gated_paused:
  "pauseGated c \<Longrightarrow> roleCheckPasses e c s \<Longrightarrow> paused s \<Longrightarrow> dispatch e c s = Inl Paused"
  by (cases c) (simp_all add: openBatch_def closeBatch_def submitBid_def requestAuctionSettlement_def)

text \<open>
  Claim C4, as the code has it. While \<open>paused\<close> is true, each of the four entry points
  that carry \<^verbatim>\<open>whenNotPaused\<close> (\<^verbatim>\<open>openBatch\<close>, \<^verbatim>\<open>closeBatch\<close>,
  \<^verbatim>\<open>submitBid\<close>, \<^verbatim>\<open>requestAuctionSettlement\<close>) fails and leaves the storage
  unchanged, emitting nothing: with \<open>Paused\<close> when the caller passes the role check of
  the entry point, with the role error otherwise. The administrative setters carry
  \<^verbatim>\<open>onlyOwner\<close> alone and succeed for the owner while the contract is paused; among
  them \<^verbatim>\<open>setPaused(false)\<close>, which is how the contract is unpaused.
\<close>

theorem paused_blocks_gated_operations:
  "(paused s \<and> pauseGated c \<longrightarrow>
      transact e c s = (s, [], Some (if roleCheckPasses e c s then Paused else roleError c))) \<and>
   (paused s \<and> msg_sender e = owner s \<longrightarrow>
      transact e (SetPaused False) s = (s\<lparr>paused := False\<rparr>, [ContractUnpaused (msg_sender e)], None)) \<and>
   (paused s \<and> msg_sender e = owner s \<and> adminSetter c \<longrightarrow>
      snd (snd (transact e c s)) = None)"
proof (intro conjI impI)
  assume h: "paused s \<and> pauseGated c"
  show "transact e c s = (s, [], Some (if roleCheckPasses e c s then Paused else roleError c))"
  proof (cases "roleCheckPasses e c s")
    case True
    with h show ?thesis by (simp add: transact_Inl gated_paused)
  next
    case False
    with h show ?thesis by (simp add: transact_Inl gated_role_error)
  qed
next
  assume "paused s \<and> msg_sender e = owner s"
  then have "dispatch e (SetPaused False) s
      = Inr (s\<lparr>paused := False\<rparr>, [ContractUnpaused (msg_sender e)])"
    by (simp add: setPaused_def)
  then show "transact e (SetPaused False) s
      = (s\<lparr>paused := False\<rparr>, [ContractUnpaused (msg_sender e)], None)"
    by (rule transact_Inr)
next
  assume "paused s \<and> msg_sender e = owner s \<and> adminSetter c"
  then show "snd (snd (transact e c s)) = None"
    by (cases c) (simp_all add: transact_def transferOwnership_def addProvider_def
        removeProvider_def setPaused_def setCooldownSeconds_def)
qed

theorem paused_blocks_gated_operations_witness:
  "transact (scenarioEnv 1 50) (CloseBatch 1) pausedContract = (pausedContract, [], Some Paused) \<and>
   transact (scenarioEnv 2 50) (CloseBatch 1) pausedContract = (pausedContract, [], Some NotOwner) \<and>
   transact (scenarioEnv 1 50) (SetPaused False) pausedContract
     = (pausedContract\<lparr>paused := False\<rparr>, [ContractUnpaused 1], None) \<and>
   snd (snd (transact (scenarioEnv 1 50) (AddProvider 2) pausedContract)) = None"
proof -
  have p: "paused pausedContract" by (simp add: pausedContract_def)
  have o: "msg_sender (scenarioEnv 1 50) = owner pausedContract"
    by (simp add: pausedContract_def scenario_defs)
  have n: "msg_sender (scenarioEnv 2 50) \<noteq> owner pausedContract"
    by (simp add: pausedContract_def scenario_defs)
  from paused_blocks_gated_operations [of pausedContract "CloseBatch 1" "scenarioEnv 1 50"]
    paused_blocks_gated_operations [of pausedContract "CloseBatch 1" "scenarioEnv 2 50"]
    paused_blocks_gated_operations [of pausedContract "AddProvider 2" "scenarioEnv 1 50"] p o n
  show ?thesis by (simp add: scenarioEnv_def)
qed

text \<open>
  The claim C4 as stated fails: in a paused contract the owner's \<^verbatim>\<open>setPaused\<close>
  succeeds and changes the storage, \<^verbatim>\<open>openBatch\<close> by another caller fails with
  \<open>NotOwner\<close>, and \<^verbatim>\<open>myCallback\<close>, which has no modifier, succeeds and emits the
  settlement event.
\<close>

theorem paused_does_not_block_everything:
  "paused pausedContract \<and>
   transact (scenarioEnv 1 50) (SetPaused False) pausedContract
     = (pausedContract\<lparr>paused := False\<rparr>, [ContractUnpaused 1], None) \<and>
   transact (scenarioEnv 2 50) (OpenBatch 9) pausedContract = (pausedContract, [], Some NotOwner) \<and>
   paused (execute [(scenarioEnv 1 350, SetPaused True)]
             (requested [bidOf 30 1, bidOf 20 2, bidOf 10 3])) \<and>
   snd (transact (scenarioEnv 9 400) (MyCallback 7 (abiWord 30 @ abiWord 20) [])
          (execute [(scenarioEnv 1 350, SetPaused True)]
             (requested [bidOf 30 1, bidOf 20 2, bidOf 10 3])))
     = ([AuctionSettled 1 30 1 20], None)"
  unfolding requested_30_20_10
  by (simp add: pausedContract_def transact_def setPaused_def openBatch_def myCallback_def
      hashCiphertexts_def Let_def decode_first decode_second scenario_defs)

text \<open>
  Claim C5, as the code has it. The modifiers run in the order written,
  \<^verbatim>\<open>onlyOwner\<close> or \<^verbatim>\<open>onlyProvider\<close> before \<^verbatim>\<open>whenNotPaused\<close>, and the cooldown
  is checked in the body. So on each of the four pause-gated entry points a caller
  that fails the role check gets \<open>NotOwner\<close> or \<open>NotProvider\<close>, paused or not, and a
  caller that passes it gets \<open>Paused\<close> while the contract is paused, whatever the
  cooldown and the batch: \<open>Paused\<close> precedes \<open>CooldownActive\<close>, and the role errors
  precede \<open>Paused\<close>.
\<close>

theorem role_check_precedes_pause:
  "pauseGated c \<Longrightarrow>
     (\<not> roleCheckPasses e c s \<longrightarrow> transact e c s = (s, [], Some (roleError c))) \<and>
     (roleCheckPasses e c s \<and> paused s \<longrightarrow> transact e c s = (s, [], Some Paused))"
  by (simp add: transact_Inl gated_role_error gated_paused)

theorem role_check_precedes_pause_witness:
  "transact (scenarioEnv 2 50) (SubmitBid 1 (Handle 5) (Handle 0)) pausedContract
     = (pausedContract, [], Some NotProvider) \<and>
   transact (scenarioEnv 1 20) (SubmitBid 1 (Handle 5) (Handle 0)) (pausedContract\<lparr>lastSubmissionTime := (\<lambda>_. 10)\<rparr>)
     = (pausedContract\<lparr>lastSubmissionTime := (\<lambda>_. 10)\<rparr>, [], Some Paused)"
proof -
  let ?s = "pausedContract\<lparr>lastSubmissionTime := (\<lambda>_. 10)\<rparr>"
  have a: "\<not> roleCheckPasses (scenarioEnv 2 50) (SubmitBid 1 (Handle 5) (Handle 0)) pausedContract"
    by (simp add: pausedContract_def scenario_defs)
  have b: "roleCheckPasses (scenarioEnv 1 20) (SubmitBid 1 (Handle 5) (Handle 0)) ?s \<and> paused ?s"
    by (simp add: pausedContract_def scenario_defs)
  from role_check_precedes_pause [of "SubmitBid 1 (Handle 5) (Handle 0)" "scenarioEnv 2 50" pausedContract]
    role_check_precedes_pause [of "SubmitBid 1 (Handle 5) (Handle 0)" "scenarioEnv 1 20" ?s] a b
  show ?thesis by simp
qed

text \<open>
  The claim C5 as stated fails: in a paused contract a caller that is no provider gets
  \<open>NotProvider\<close> from \<^verbatim>\<open>submitBid\<close> and a caller that is not the owner gets
  \<open>NotOwner\<close> from \<^verbatim>\<open>closeBatch\<close>, not \<open>Paused\<close>.
\<close>

theorem paused_does_not_take_precedence:
  "paused pausedContract \<and>
   transact (scenarioEnv 2 50) (SubmitBid 1 (Handle 5) (Handle 0)) pausedContract
     = (pausedContract, [], Some NotProvider) \<and>
   transact (scenarioEnv 2 50) (CloseBatch 1) pausedContract
     = (pausedContract, [], Some NotOwner)"
  by (simp add: pausedContract_def transact_def submitBid_def closeBatch_def scenario_defs)

section \<open>The settlement request and its callback\<close>

lemma requestAuctionSettlement_context:
  assumes "requestAuctionSettlement e b s = Inr (s', log)"
  shows "\<exists>b0 b1 rest h' s2' hb' sb'.
           bids (batches s b) = b0 # b1 # rest \<and>
           tournament e b0 b1 rest = (h', s2', hb', sb') \<and>
           decryptionContexts s' (oracleRequestId e) =
             \<lparr>ctxBatchId = b, stateHash = Keccak256 [toBytes32 h', toBytes32 s2'] (this_address e),
              processed = False\<rparr> \<and>
           log = [FHE_requestDecryption [toBytes32 h', toBytes32 s2'], DecryptionRequested (oracleRequestId e) b]"
  using assms
  by (auto simp: requestAuctionSettlement_def hashCiphertexts_def Let_def
      split: if_splits sum.splits list.splits prod.splits)

lemma myCallback_success:
  assumes "myCallback e r cleartexts proof s = Inr (s', log)"
  shows "\<exists>b0 b1 rest hi sec.
           bids (batches s (ctxBatchId (decryptionContexts s r))) = b0 # b1 # rest \<and>
           stateHash (decryptionContexts s r) =
             Keccak256 [toBytes32 (encryptedBidAmount b0), toBytes32 (encryptedBidAmount b1)] (this_address e) \<and>
           decode_at cleartexts 0 32 = Inr hi \<and> decode_at cleartexts 32 64 = Inr sec \<and>
           log = [AuctionSettled (ctxBatchId (decryptionContexts s r)) hi (bidder b0) sec] \<and>
           processed (decryptionContexts s' r)"
  using assms
  by (auto simp: myCallback_def hashCiphertexts_def Let_def
      split: if_splits sum.splits list.splits)

lemma dispatch_context_frozen:
  assumes "\<not> createsContext r (e, c)" and "dispatch e c s = Inr (s', log)"
  shows "ctxBatchId (decryptionContexts s' r) = ctxBatchId (decryptionContexts s r) \<and>
         stateHash (decryptionContexts s' r) = stateHash (decryptionContexts s r)"
proof (cases c)
  case (RequestAuctionSettlement b)
  with assms show ?thesis
    by (auto simp: requestAuctionSettlement_def Let_def
        split: if_splits sum.splits list.splits prod.splits)
next
  case (MyCallback r' ct pf)
  with assms show ?thesis
    by (auto simp: myCallback_def Let_def split: if_splits sum.splits list.splits)
qed (use assms in \<open>auto simp: transferOwnership_def addProvider_def removeProvider_def setPaused_def
       setCooldownSeconds_def openBatch_def openNewBatch_def checked_add_def closeBatch_def
       submitBid_def split: if_splits sum.splits\<close>)

lemma transact_context_frozen:
  "\<not> createsContext r (e, c) \<Longrightarrow>
   ctxBatchId (decryptionContexts (fst (transact e c s)) r) = ctxBatchId (decryptionContexts s r) \<and>
   stateHash (decryptionContexts (fst (transact e c s)) r) = stateHash (decryptionContexts s r)"
  by (auto simp: transact_def split: sum.splits dest: dispatch_context_frozen)

lemma execute_context_frozen:
  "\<not> list_ex (createsContext r) tr \<Longrightarrow>
   ctxBatchId (decryptionContexts (execute tr s) r) = ctxBatchId (decryptionContexts s r) \<and>
   stateHash (decryptionContexts (execute tr s) r) = stateHash (decryptionContexts s r)"
proof (induction tr arbitrary: s)
  case Nil
  then show ?case by simp
next
  case (Cons x tr)
  obtain e c where x: "x = (e, c)" by (cases x)
  with Cons.prems have "\<not> createsContext r (e, c)" and "\<not> list_ex (createsContext r) tr"
    by simp_all
  with transact_context_frozen [of r e c s] Cons.IH [of "fst (transact e c s)"] x
  show ?case by simp
qed

lemma requestAuctionSettlement_closed:
  "requestAuctionSettlement e b s = Inr (s', log) \<Longrightarrow>
   b < currentBatchId s' \<and> \<not> isOpen (batches s' b) \<and> batches s' = batches s"
  by (auto simp: requestAuctionSettlement_def Let_def
      split: if_splits sum.splits list.splits prod.splits)

lemma transact_success: "transact e c s = (s', log, None) \<Longrightarrow> dispatch e c s = Inr (s', log)"
  by (auto simp: transact_def split: sum.splits)

text \<open>
  What a successful callback tells about the request it answers. Let a settlement
  request for batch \<open>b\<close> succeed, let any history follow in which the oracle does not
  hand out the request id again, and let a callback for the id succeed. Then the hash
  check has passed, so the tournament of the request returned the amounts of
  \<^verbatim>\<open>bids[0]\<close> and \<^verbatim>\<open>bids[1]\<close>, its seed; and the event names the bidder of
  \<^verbatim>\<open>bids[0]\<close>, which \<^verbatim>\<open>myCallback\<close> reads from the storage. The bidders that
  the tournament tracks are local to \<^verbatim>\<open>requestAuctionSettlement\<close> and reach no event.
\<close>

lemma successful_callback_forces_seed:
  assumes req: "transact e1 (RequestAuctionSettlement b) s = (s1, log1, None)"
    and fresh: "\<not> list_ex (createsContext (oracleRequestId e1)) tr"
    and cb: "transact e2 (MyCallback (oracleRequestId e1) cleartexts proof) (execute tr s1)
               = (s3, log3, None)"
  shows "\<exists>b0 b1 rest hi sec hb sb.
           bids (batches s b) = b0 # b1 # rest \<and>
           tournament e1 b0 b1 rest = (encryptedBidAmount b0, encryptedBidAmount b1, hb, sb) \<and>
           decode_at cleartexts 0 32 = Inr hi \<and> decode_at cleartexts 32 64 = Inr sec \<and>
           log3 = [AuctionSettled b hi (bidder b0) sec]"
proof -
  let ?r = "oracleRequestId e1"
  let ?s2 = "execute tr s1"
  from req have req': "requestAuctionSettlement e1 b s = Inr (s1, log1)"
    using transact_success by fastforce
  from requestAuctionSettlement_context [OF req']
  obtain b0 b1 rest h' s2' hb' sb' where
    bs: "bids (batches s b) = b0 # b1 # rest" and
    t: "tournament e1 b0 b1 rest = (h', s2', hb', sb')" and
    ctx: "decryptionContexts s1 ?r =
             \<lparr>ctxBatchId = b, stateHash = Keccak256 [toBytes32 h', toBytes32 s2'] (this_address e1),
              processed = False\<rparr>"
    by blast
  from requestAuctionSettlement_closed [OF req']
  have closed: "b < currentBatchId s1" "\<not> isOpen (batches s1 b)" and same: "batches s1 = batches s"
    by blast+
  from execute_closed [OF closed, of tr] same bs
  have bs2: "bids (batches ?s2 b) = b0 # b1 # rest" by simp
  from execute_context_frozen [OF fresh, of s1] ctx
  have ctx2: "ctxBatchId (decryptionContexts ?s2 ?r) = b"
    "stateHash (decryptionContexts ?s2 ?r) = Keccak256 [toBytes32 h', toBytes32 s2'] (this_address e1)"
    by simp_all
  from cb have cb': "myCallback e2 ?r cleartexts proof ?s2 = Inr (s3, log3)"
    using transact_success by fastforce
  from myCallback_success [OF cb'] ctx2 bs2
  obtain hi sec where
    h: "Keccak256 [toBytes32 h', toBytes32 s2'] (this_address e1) =
          Keccak256 [toBytes32 (encryptedBidAmount b0), toBytes32 (encryptedBidAmount b1)] (this_address e2)" and
    d: "decode_at cleartexts 0 32 = Inr hi" "decode_at cleartexts 32 64 = Inr sec" and
    l: "log3 = [AuctionSettled b hi (bidder b0) sec]"
    by auto
  from h have "h' = encryptedBidAmount b0" "s2' = encryptedBidAmount b1"
    by (simp_all add: euint32.expand)
  with t bs d l show ?thesis by blast
qed

section \<open>Where the code departs from the specification\<close>

lemma request_run:
  "snd (transact (scenarioEnv 1 300) (RequestAuctionSettlement 1) (closedAuction (b0 # b1 # rest)))
     = (case tournament (scenarioEnv 1 300) b0 b1 rest of
          (h, s2, hb, sb) \<Rightarrow> ([FHE_requestDecryption [toBytes32 h, toBytes32 s2], DecryptionRequested 7 1], None))"
  by (simp add: transact_def requestAuctionSettlement_def checked_add_def Let_def scenario_defs
      split: prod.splits)

text \<open>
  Claim C1 does not hold of the code. The seed takes the first two bids as highest and
  second highest without comparing them, and an iteration that keeps the highest keeps
  the second as well. With the amounts 10 and 30 the exported tokens decrypt to 10 and
  30 (the maximum is 30); with 10, 30, 20 they decrypt to 20 and 10 (the top two are 30
  and 20); with the same amounts submitted as 30, 20, 10 they decrypt to 30 and 20, so
  the result depends on the submission order.
\<close>

theorem tournament_misses_top_two:
  "plaintext (scenarioEnv 1 300) (Handle 10) = 10 \<and>
   plaintext (scenarioEnv 1 300) (Handle 20) = 20 \<and>
   plaintext (scenarioEnv 1 300) (Handle 30) = 30 \<and>
   snd (transact (scenarioEnv 1 300) (RequestAuctionSettlement 1)
          (execute (auction [bidOf 10 1, bidOf 30 2]) deployed))
     = ([FHE_requestDecryption [10, 30], DecryptionRequested 7 1], None) \<and>
   snd (transact (scenarioEnv 1 300) (RequestAuctionSettlement 1)
          (execute (auction [bidOf 10 1, bidOf 30 2, bidOf 20 3]) deployed))
     = ([FHE_requestDecryption [20, 10], DecryptionRequested 7 1], None) \<and>
   snd (transact (scenarioEnv 1 300) (RequestAuctionSettlement 1)
          (execute (auction [bidOf 30 1, bidOf 20 2, bidOf 10 3]) deployed))
     = ([FHE_requestDecryption [30, 20], DecryptionRequested 7 1], None)"
  unfolding auction_run2 auction_run3 request_run
  by (simp add: tournament_def FHE_ge_def FHE_select_def scenarioEnv_def bidOf_def)

lemma scenario_run:
  "execute scenarioTrace deployed =
     (closedAuction [bidOf 10 1, bidOf 30 2, bidOf 20 3])
       \<lparr>lastDecryptionRequestTime := (\<lambda>_. 0)(1 := 300),
        decryptionContexts := (\<lambda>_. emptyContext)(7 :=
          \<lparr>ctxBatchId = 1, stateHash = Keccak256 [20, 10] 4096, processed = False\<rparr>)\<rparr>"
  unfolding scenarioTrace_def execute_append auction_run3
  by (simp add: transact_def requestAuctionSettlement_def tournament_def FHE_ge_def
      FHE_select_def hashCiphertexts_def checked_add_def Let_def scenario_defs)

text \<open>
  Claim C2 does not hold of the code. In the scenario of the specification (bids 10,
  30, 20, batch closed, settlement requested) the request stores the hash of the
  tournament's two result tokens, those of 20 and 10, while \<^verbatim>\<open>myCallback\<close> hashes the
  tokens of \<^verbatim>\<open>bids[0]\<close> and \<^verbatim>\<open>bids[1]\<close>, those of 10 and 30, without running the
  tournament. The callback fails with \<open>InvalidStateHash\<close> although the bids are the
  ones that were submitted.
\<close>

theorem unchanged_batch_fails_hash_check:
  "bids (batches (execute scenarioTrace deployed) 1) = [bidOf 10 1, bidOf 30 2, bidOf 20 3] \<and>
   decryptionContexts (execute scenarioTrace deployed) 7
     = \<lparr>ctxBatchId = 1, stateHash = Keccak256 [20, 10] 4096, processed = False\<rparr> \<and>
   transact (scenarioEnv 9 400) (MyCallback 7 (abiWord 30 @ abiWord 20) []) (execute scenarioTrace deployed)
     = (execute scenarioTrace deployed, [], Some InvalidStateHash)"
  unfolding scenario_run
  by (simp add: transact_def myCallback_def hashCiphertexts_def Let_def scenario_defs)

lemma requested_20_30_10:
  "requested [bidOf 20 1, bidOf 30 2, bidOf 10 3] =
     (closedAuction [bidOf 20 1, bidOf 30 2, bidOf 10 3])
       \<lparr>lastDecryptionRequestTime := (\<lambda>_. 0)(1 := 300),
        decryptionContexts := (\<lambda>_. emptyContext)(7 :=
          \<lparr>ctxBatchId = 1, stateHash = Keccak256 [20, 30] 4096, processed = False\<rparr>)\<rparr>"
  unfolding requested_run auction_run3
  by (simp add: transact_def requestAuctionSettlement_def tournament_def
      FHE_ge_def FHE_select_def hashCiphertexts_def checked_add_def Let_def scenario_defs)

text \<open>
  Claim C3 does not hold of the code. \<^verbatim>\<open>myCallback\<close> emits the bidder of
  \<^verbatim>\<open>bids[0]\<close>; the bidder that the tournament tracks for its highest amount is a
  local variable of \<^verbatim>\<open>requestAuctionSettlement\<close> and is stored nowhere. In the
  scenario of the specification (bids 10, 30, 20 by the bidders 1, 2, 3) the tournament
  tracks bidder 3, and every callback for the request, whatever its environment,
  cleartexts and proof, fails with \<open>InvalidStateHash\<close>: no settlement event is emitted,
  where the specification expects the event with 30, the bidder of 30 and 20. With the
  bids 20, 30, 10 by the bidders 1, 2, 3 the callback with the decrypted tokens 20 and
  30 succeeds, and its event names bidder 1 as the highest bidder with the amount 20,
  while bidder 2 has bid 30.
\<close>

theorem settlement_event_names_first_slot:
  "highestBidderOf (tournament (scenarioEnv 1 300) (bidOf 10 1) (bidOf 30 2) [bidOf 20 3]) = 3 \<and>
   transact e (MyCallback 7 cleartexts proof) (execute scenarioTrace deployed)
     = (execute scenarioTrace deployed, [], Some InvalidStateHash) \<and>
   bids (batches (requested [bidOf 20 1, bidOf 30 2, bidOf 10 3]) 1)
     = [bidOf 20 1, bidOf 30 2, bidOf 10 3] \<and>
   plaintext (scenarioEnv 1 300) (encryptedBidAmount (bidOf 30 2)) = 30 \<and>
   highestBidderOf (tournament (scenarioEnv 1 300) (bidOf 20 1) (bidOf 30 2) [bidOf 10 3]) = 1 \<and>
   transact (scenarioEnv 9 400) (MyCallback 7 (abiWord 20 @ abiWord 30) [])
       (requested [bidOf 20 1, bidOf 30 2, bidOf 10 3])
     = ((requested [bidOf 20 1, bidOf 30 2, bidOf 10 3])
          \<lparr>decryptionContexts := (\<lambda>_. emptyContext)(7 :=
             \<lparr>ctxBatchId = 1, stateHash = Keccak256 [20, 30] 4096, processed = True\<rparr>)\<rparr>,
        [AuctionSettled 1 20 1 30], None)"
  unfolding scenario_run requested_20_30_10
  by (simp add: transact_def myCallback_def hashCiphertexts_def tournament_def highestBidderOf_def
      FHE_ge_def FHE_select_def Let_def decode_first decode_second scenario_defs)

text \<open>
  The checks of \<^verbatim>\<open>requestAuctionSettlement\<close> in their order, for the owner of the
  unpaused contract; and what they do with batch id 0, which is never issued.
\<close>

lemma request_unissued_zero:
  assumes "constructor e0 = Inr (s0, l0)" and "msg_sender e = owner (execute tr s0)"
    and "\<not> paused (execute tr s0)"
  shows "transact e (RequestAuctionSettlement 0) (execute tr s0) = (execute tr s0, [], Some NoBids)"
proof -
  from assms(1) have "storageInv (execute tr s0)" by (rule reachable_inv)
  then have "0 < currentBatchId (execute tr s0)" "\<not> isOpen (batches (execute tr s0) 0)"
    "bids (batches (execute tr s0) 0) = []"
    by (auto simp: storageInv_def)
  with assms(2,3) have "requestAuctionSettlement e 0 (execute tr s0) = Inl NoBids"
    by (simp add: requestAuctionSettlement_def)
  then show ?thesis by (simp add: transact_Inl)
qed

lemma requestAuctionSettlement_checks:
  assumes "msg_sender e = owner s" and "\<not> paused s"
  shows "currentBatchId s \<le> b \<or> isOpen (batches s b) \<Longrightarrow>
           requestAuctionSettlement e b s = Inl InvalidBatch"
    and "b < currentBatchId s \<Longrightarrow> \<not> isOpen (batches s b) \<Longrightarrow> length (bids (batches s b)) = 0 \<Longrightarrow>
           requestAuctionSettlement e b s = Inl NoBids"
    and "b < currentBatchId s \<Longrightarrow> \<not> isOpen (batches s b) \<Longrightarrow> length (bids (batches s b)) = 1 \<Longrightarrow>
           requestAuctionSettlement e b s = Inl NotEnoughBids"
    and "b < currentBatchId s \<Longrightarrow> \<not> isOpen (batches s b) \<Longrightarrow> 2 \<le> length (bids (batches s b)) \<Longrightarrow>
         lastDecryptionRequestTime s (msg_sender e) + cooldownSeconds s < 2 ^ 256 \<Longrightarrow>
         lastDecryptionRequestTime s (msg_sender e) + cooldownSeconds s \<le> block_timestamp e \<Longrightarrow>
           \<exists>s' t0 t1. requestAuctionSettlement e b s =
             Inr (s', [FHE_requestDecryption [t0, t1], DecryptionRequested (oracleRequestId e) b])"
  using assms
  by (auto simp: requestAuctionSettlement_def checked_add_def Let_def
      split: list.splits prod.splits)

text \<open>
  Claim C7 does not hold of the code at batch id 0. No batch has the id 0, but
  \<open>0 < currentBatchId\<close> and the zero batch is not open, so the check for
  \<open>InvalidBatch\<close> lets the id through and the request fails with \<open>NoBids\<close>.
  \<^verbatim>\<open>closeBatch\<close> rejects the same id with \<open>InvalidBatch\<close>.
\<close>

theorem request_on_batch_zero:
  "transact (scenarioEnv 1 5) (RequestAuctionSettlement 0) deployed = (deployed, [], Some NoBids) \<and>
   transact (scenarioEnv 1 5) (CloseBatch 0) deployed = (deployed, [], Some InvalidBatch)"
  by (simp add: transact_def requestAuctionSettlement_def closeBatch_def scenario_defs)

end
